theory Spec2Isabelle
  imports Main
begin

section \<open>The naive hybrid space recommender (baybe/recommenders/naive.py)\<close>

text \<open>
  The orchestrator \<open>NaiveHybridSpaceRecommender\<close> splits a hybrid search space into its
  discrete and its continuous subspace and drives one recommender over each. Its two
  methods, \<open>__attrs_post_init__\<close> and \<open>recommend\<close>, are embedded below. The
  recommenders it delegates to, the search space, the data frames and the acquisition
  functions are collaborators whose code lives elsewhere: their methods are taken as
  parameters (the record \<open>collab\<close>), so every theorem holds for all of them.
\<close>

subsection \<open>Exceptions\<close>

text \<open>
  The five exceptions of baybe/exceptions.py, the built-in exceptions that
  \<open>recommend\<close> and the data-frame operations raise, the warning that
  \<open>warnings.warn\<close> raises instead of reporting it when a filter of the interpreter
  turns warnings into errors (\<open>UserWarning\<close>, with its message), the two exceptions
  that \<open>attrs.evolve\<close> documents, and a catch-all for whatever else a collaborator
  may raise.
\<close>

datatype exn =
    NotEnoughPointsLeftError
  | NoMCAcquisitionFunctionError
  | IncompatibleSearchSpaceError
  | EmptySearchSpaceError
  | NothingToSimulateError
  | NotImplementedError
  | KeyError
  | ValueError
  | UserWarning string
  | TypeError
  | NotAnAttrsClassError
  | OtherError string

subsection \<open>Data frames\<close>

text \<open>
  A data frame has column names, one label per row (its index) and the rows, each a
  list of cells; a missing cell (NaN) is \<open>None\<close>.
\<close>

record 'v DataFrame =
  df_columns :: "string list"
  df_index :: "int list"
  df_rows :: "'v option list list"



text \<open>
  \<open>df.loc[labels]\<close> with a list of labels: for each requested label, in the order
  requested, the rows that carry it; \<open>KeyError\<close> when a requested label is not in the
  index.
\<close>

definition rows_with :: "'v DataFrame \<Rightarrow> int \<Rightarrow> (int \<times> 'v option list) list" where
  "rows_with df l = filter (\<lambda>p. fst p = l) (zip (df_index df) (df_rows df))"

definition loc :: "'v DataFrame \<Rightarrow> int list \<Rightarrow> exn + 'v DataFrame" where
  "loc df labels =
     (if list_all (\<lambda>l. l \<in> set (df_index df)) labels
      then Inr (df\<lparr>df_index := map fst (concat (map (rows_with df) labels)),
                   df_rows := map snd (concat (map (rows_with df) labels))\<rparr>)
      else Inl KeyError)"

text \<open>
  \<open>df.sample(1)\<close>: one row of the frame, at the position the random generator picks;
  \<open>ValueError\<close> on a frame without rows. The generator's output \<open>k\<close> is reduced to a
  position below the number of rows.
\<close>

definition sample_one :: "'v DataFrame \<Rightarrow> nat \<Rightarrow> exn + 'v DataFrame" where
  "sample_one df k =
     (if df_rows df = [] then Inl ValueError
      else let p = k mod length (df_rows df)
           in Inr (df\<lparr>df_index := [df_index df ! p], df_rows := [df_rows df ! p]\<rparr>))"

text \<open>\<open>df.index = labels\<close>: \<open>ValueError\<close> unless there is one label per row.\<close>

definition set_index :: "'v DataFrame \<Rightarrow> int list \<Rightarrow> exn + 'v DataFrame" where
  "set_index df labels =
     (if length labels = length (df_rows df) then Inr (df\<lparr>df_index := labels\<rparr>)
      else Inl ValueError)"

text \<open>
  \<open>pd.concat([a, b], axis=1)\<close> for two frames that carry the same index, which is the
  only way \<open>recommend\<close> calls it (the index of \<open>b\<close> has just been overwritten with that
  of \<open>a\<close>): the columns of \<open>a\<close> followed by those of \<open>b\<close>, row by row.
\<close>

definition concat_axis1 :: "'v DataFrame \<Rightarrow> 'v DataFrame \<Rightarrow> 'v DataFrame" where
  "concat_axis1 a b =
     \<lparr>df_columns = df_columns a @ df_columns b,
      df_index = df_index a,
      df_rows = map (\<lambda>p. fst p @ snd p) (zip (df_rows a) (df_rows b))\<rparr>"

subsection \<open>Tensors and acquisition functions\<close>

text \<open>
  \<open>t.unsqueeze(-2)\<close> on a two-dimensional tensor (rows, columns) gives a tensor of shape
  (rows, 1, columns).
\<close>

type_synonym 'v tensor2 = "'v option list list"
type_synonym 'v tensor3 = "'v option list list list"

definition unsqueeze :: "'v tensor2 \<Rightarrow> 'v tensor3" where
  "unsqueeze t = map (\<lambda>row. [row]) t"

text \<open>
  An acquisition function is either one that a recommender built for itself (opaque
  here, named by a number) or a \<open>PartialAcquisitionFunction\<close>, constructed from the
  wrapped function \<open>acqf\<close>, the \<open>pinned_part\<close> and the flag \<open>pin_discrete\<close>. An attribute
  holding Python's \<open>None\<close> is \<open>None\<close>.
\<close>

datatype 'v acqf =
    Acqf nat
  | PartialAcquisitionFunction "'v acqf option" "'v tensor3" bool

subsection \<open>Recommenders and the object store\<close>

text \<open>
  \<open>PureRecommender\<close> carries the two policy flags. The recommenders that the
  orchestrator delegates to extend it by the outcome of the two \<open>isinstance\<close> tests of
  \<open>recommend\<close> and by the attribute \<open>_acquisition_function\<close>; the orchestrator
  extends it by its two references.
\<close>

type_synonym ref = nat

record PureRecommender =
  allow_repeated_recommendations :: bool
  allow_recommending_already_measured :: bool

record 'v Recommender = PureRecommender +
  is_BayesianRecommender :: bool
  is_NonPredictiveRecommender :: bool
  acquisition_function :: "'v acqf option"

record NaiveHybridSpaceRecommender = PureRecommender +
  disc_recommender :: ref
  cont_recommender :: ref

subsection \<open>Search spaces\<close>

datatype SearchSpaceType = DISCRETE | CONTINUOUS | EITHER | HYBRID

record 'v SubspaceDiscrete =
  exp_rep :: "'v DataFrame"
  comp_rep :: "'v DataFrame"

record ('v, 'c) SearchSpace =
  space_type :: SearchSpaceType
  discrete :: "'v SubspaceDiscrete"
  continuous :: 'c

subsection \<open>The world: objects, everything outside, and what has been called\<close>

text \<open>
  Recommender objects live in a store and are named by references, because Python
  shares them: the caller keeps the object it passed to the constructor, and both
  fields of the orchestrator may name one object. \<open>ext\<close> is the state outside this
  module that the collaborators read and change (the random generators, the
  recommenders' internals, the filters of the \<open>warnings\<close> module). \<open>trace\<close> records, in
  order, each call of \<open>warnings.warn\<close> with its message and each call made on a
  collaborator, with the arguments that the properties below speak about.
\<close>

datatype 'v event =
    Warning string
  | Call_recommend ref int
  | Call_samples_random nat
  | Call_get_candidates bool bool
  | Call_setup_acquisition_function ref
  | Call_recommend_discrete ref "'v acqf option" int
  | Call_sample nat
  | Call_recommend_continuous ref "'v acqf option" int

record ('v, 'x) world =
  heap :: "'v Recommender list"
  ext :: 'x
  trace :: "'v event list"

definition emit :: "'v event \<Rightarrow> ('v, 'x) world \<Rightarrow> ('v, 'x) world" where
  "emit e w = w\<lparr>trace := trace w @ [e]\<rparr>"

text \<open>
  A method called on the object at reference \<open>r\<close>: it receives the object and the
  outside state, and leaves both as it pleases, whether it returns or raises.
\<close>

definition call_on ::
  "ref \<Rightarrow> ('v Recommender \<Rightarrow> 'x \<Rightarrow> (exn + 'a) \<times> 'v Recommender \<times> 'x) \<Rightarrow>
   ('v, 'x) world \<Rightarrow> (exn + 'a) \<times> ('v, 'x) world" where
  "call_on r m w =
     (case m (heap w ! r) (ext w) of
        (res, self', x') \<Rightarrow> (res, w\<lparr>heap := (heap w)[r := self'], ext := x'\<rparr>))"

text \<open>Sequencing: an exception ends the computation and keeps the world reached.\<close>

definition and_then ::
  "(exn + 'a) \<times> 'w \<Rightarrow> ('a \<Rightarrow> 'w \<Rightarrow> (exn + 'b) \<times> 'w) \<Rightarrow> (exn + 'b) \<times> 'w" where
  "and_then m f = (case m of (Inl e, w) \<Rightarrow> (Inl e, w) | (Inr a, w) \<Rightarrow> f a w)"

subsection \<open>The collaborators\<close>

text \<open>
  The methods \<open>recommend\<close> calls on other classes. The methods of a recommender take the
  object they are called on first and return it as they leave it.
  \<^item> \<open>sub_recommend\<close>: \<open>recommend\<close> of a sub-recommender;
  \<^item> \<open>samples_random\<close>: \<open>searchspace.continuous.samples_random(n)\<close>;
  \<^item> \<open>to_tensor\<close>: \<open>baybe.utils.dataframe.to_tensor\<close>;
  \<^item> \<open>get_candidates\<close>: \<open>searchspace.discrete.get_candidates\<close> with its two flags,
    returning the candidates in experimental and in computational representation;
  \<^item> \<open>setup_acquisition_function\<close>, \<open>recommend_discrete\<close> (\<open>_recommend_discrete\<close>),
    \<open>recommend_continuous\<close> (\<open>_recommend_continuous\<close>): methods of a sub-recommender;
  \<^item> \<open>random_state\<close>: the next output of the random generator behind
    \<open>DataFrame.sample\<close>;
  \<^item> \<open>warnings_filter\<close>: whether, in the outside state given, the filters of the
    \<open>warnings\<close> module turn a warning with this message into an exception;
  \<^item> \<open>class_init\<close>: the constructor \<open>cls(**changes)\<close> that \<open>attrs.evolve\<close> ends in, for
    the class of the recommender it copies. It is given the attribute values of the
    new instance and runs the class's generated \<open>__init__\<close> with its validators and the
    class's \<open>__attrs_post_init__\<close>: it may raise, it may call \<open>warnings.warn\<close> itself (the
    messages it returns, in order; a nested \<open>NaiveHybridSpaceRecommender\<close> runs this
    very guard), and it decides the attribute that is not an argument of \<open>__init__\<close>,
    \<open>_acquisition_function\<close>. Objects it creates for its own use belong to the outside
    state.
\<close>

record ('v, 'c, 'x) collab =
  sub_recommend ::
    "'v Recommender \<Rightarrow> ('v, 'c) SearchSpace \<Rightarrow> int \<Rightarrow> 'v DataFrame option \<Rightarrow>
     'v DataFrame option \<Rightarrow> 'x \<Rightarrow> (exn + 'v DataFrame) \<times> 'v Recommender \<times> 'x"
  samples_random :: "'c \<Rightarrow> nat \<Rightarrow> 'x \<Rightarrow> (exn + 'v DataFrame) \<times> 'x"
  to_tensor :: "'v DataFrame \<Rightarrow> 'v tensor2"
  get_candidates ::
    "'v SubspaceDiscrete \<Rightarrow> bool \<Rightarrow> bool \<Rightarrow> exn + 'v DataFrame \<times> 'v DataFrame"
  setup_acquisition_function ::
    "'v Recommender \<Rightarrow> ('v, 'c) SearchSpace \<Rightarrow> 'v DataFrame option \<Rightarrow>
     'v DataFrame option \<Rightarrow> 'x \<Rightarrow> (exn + unit) \<times> 'v Recommender \<times> 'x"
  recommend_discrete ::
    "'v Recommender \<Rightarrow> 'v SubspaceDiscrete \<Rightarrow> 'v DataFrame \<Rightarrow> int \<Rightarrow> 'x \<Rightarrow>
     (exn + int list) \<times> 'v Recommender \<times> 'x"
  recommend_continuous ::
    "'v Recommender \<Rightarrow> 'c \<Rightarrow> int \<Rightarrow> 'x \<Rightarrow> (exn + 'v DataFrame) \<times> 'v Recommender \<times> 'x"
  random_state :: "'x \<Rightarrow> nat \<times> 'x"
  warnings_filter :: "string \<Rightarrow> 'x \<Rightarrow> bool"
  class_init :: "'v Recommender \<Rightarrow> 'x \<Rightarrow> (exn + 'v acqf option) \<times> string list \<times> 'x"

subsection \<open>Construction: \<open>__attrs_post_init__\<close>\<close>

definition msg_already_measured :: string where
  "msg_already_measured =
     ''The value of '' @ [CHR 0x27] @ ''allow_recommending_already_measured'' @ [CHR 0x27] @
     '' differs from what is specified in the discrete recommender. '' @
     ''The value of the discrete recommender will be ignored.''"

definition msg_repeated :: string where
  "msg_repeated =
     ''The value of '' @ [CHR 0x27] @ ''allow_repeated_recommendations'' @ [CHR 0x27] @
     '' differs from what is specified in the discrete recommender. '' @
     ''The value of the discrete recommender will be ignored.''"

text \<open>
  \<open>warnings.warn(msg)\<close>: the call is recorded; it raises the warning when the filters
  say so and returns otherwise.
\<close>

definition warn ::
  "('v, 'c, 'x) collab \<Rightarrow> string \<Rightarrow> ('v, 'x) world \<Rightarrow> (exn + unit) \<times> ('v, 'x) world" where
  "warn E msg w =
     (if warnings_filter E msg (ext w) then Inl (UserWarning msg) else Inr (),
      emit (Warning msg) w)"

text \<open>
  \<open>evolve(obj, ...)\<close> collects the attributes of the object, applies the changes and
  calls the constructor of the object's class on them. What the constructor reports by
  \<open>warnings.warn\<close> and what it does outside happens whether it raises or returns. When
  it returns, the new instance is of the class of the old one and carries the
  attribute values passed; it gets a fresh reference (the next free place of the
  store), and the old object stays as it is.
\<close>

definition evolve ::
  "('v, 'c, 'x) collab \<Rightarrow> ref \<Rightarrow> ('v Recommender \<Rightarrow> 'v Recommender) \<Rightarrow>
   ('v, 'x) world \<Rightarrow> (exn + ref) \<times> ('v, 'x) world" where
  "evolve E r changes w =
     (let attributes = changes (heap w ! r) in
      case class_init E attributes (ext w) of
        (res, warnings, x') \<Rightarrow>
          (let w1 = w\<lparr>ext := x', trace := trace w @ map Warning warnings\<rparr> in
           case res of
             Inl e \<Rightarrow> (Inl e, w1)
           | Inr a \<Rightarrow>
               (Inr (length (heap w1)),
                w1\<lparr>heap := heap w1 @ [attributes\<lparr>acquisition_function := a\<rparr>]\<rparr>)))"

text \<open>Lines 51 to 63.\<close>

definition sync_already_measured ::
  "('v, 'c, 'x) collab \<Rightarrow> NaiveHybridSpaceRecommender \<Rightarrow> ('v, 'x) world \<Rightarrow>
   (exn + NaiveHybridSpaceRecommender) \<times> ('v, 'x) world" where
  "sync_already_measured E self w =
     (let flag = allow_recommending_already_measured self in
      if flag \<noteq> allow_recommending_already_measured (heap w ! disc_recommender self)
      then
        and_then (warn E msg_already_measured w)
          (\<lambda>_ w1.
             and_then
               (evolve E (disc_recommender self)
                  (\<lambda>d. d\<lparr>allow_recommending_already_measured := flag\<rparr>) w1)
               (\<lambda>r w2. (Inr (self\<lparr>disc_recommender := r\<rparr>), w2)))
      else (Inr self, w))"

text \<open>Lines 65 to 77.\<close>

definition sync_repeated ::
  "('v, 'c, 'x) collab \<Rightarrow> NaiveHybridSpaceRecommender \<Rightarrow> ('v, 'x) world \<Rightarrow>
   (exn + NaiveHybridSpaceRecommender) \<times> ('v, 'x) world" where
  "sync_repeated E self w =
     (let flag = allow_repeated_recommendations self in
      if flag \<noteq> allow_repeated_recommendations (heap w ! disc_recommender self)
      then
        and_then (warn E msg_repeated w)
          (\<lambda>_ w1.
             and_then
               (evolve E (disc_recommender self)
                  (\<lambda>d. d\<lparr>allow_repeated_recommendations := flag\<rparr>) w1)
               (\<lambda>r w2. (Inr (self\<lparr>disc_recommender := r\<rparr>), w2)))
      else (Inr self, w))"

text \<open>Lines 49 to 77.\<close>

definition attrs_post_init ::
  "('v, 'c, 'x) collab \<Rightarrow> NaiveHybridSpaceRecommender \<Rightarrow> ('v, 'x) world \<Rightarrow>
   (exn + NaiveHybridSpaceRecommender) \<times> ('v, 'x) world" where
  "attrs_post_init E self w =
     and_then (sync_already_measured E self w) (\<lambda>self1 w1. sync_repeated E self1 w1)"


subsection \<open>\<open>recommend\<close>\<close>

text \<open>Lines 100 to 104: the recommender of a space that is not hybrid.\<close>

definition degenerate_recommender ::
  "NaiveHybridSpaceRecommender \<Rightarrow> ('v, 'c) SearchSpace \<Rightarrow> ref option" where
  "degenerate_recommender self searchspace =
     (if space_type searchspace = DISCRETE then Some (disc_recommender self)
      else if space_type searchspace = CONTINUOUS then Some (cont_recommender self)
      else None)"

text \<open>
  Lines 131 to 145: only when the discrete recommender is Bayesian, its acquisition
  function is set up and then replaced by the partial one that pins \<open>cont_part\<close>.
\<close>

definition wrap_discrete ::
  "('v, 'c, 'x) collab \<Rightarrow> NaiveHybridSpaceRecommender \<Rightarrow> bool \<Rightarrow> ('v, 'c) SearchSpace \<Rightarrow>
   'v DataFrame option \<Rightarrow> 'v DataFrame option \<Rightarrow> 'v tensor3 \<Rightarrow> ('v, 'x) world \<Rightarrow>
   (exn + unit) \<times> ('v, 'x) world" where
  "wrap_discrete E self is_bayesian_recommender searchspace train_x train_y cont_part w =
     (if is_bayesian_recommender then
        and_then
          (call_on (disc_recommender self)
             (\<lambda>d. setup_acquisition_function E d searchspace train_x train_y)
             (emit (Call_setup_acquisition_function (disc_recommender self)) w))
          (\<lambda>_ w1.
             let d = heap w1 ! disc_recommender self;
                 disc_acqf_part =
                   PartialAcquisitionFunction (acquisition_function d) cont_part False
             in (Inr (),
                 w1\<lparr>heap := (heap w1)[disc_recommender self :=
                        d\<lparr>acquisition_function := Some disc_acqf_part\<rparr>]\<rparr>))
      else (Inr (), w))"

text \<open>Lines 147 to 152: the discrete search, on the candidates and the batch size.\<close>

definition search_discrete ::
  "('v, 'c, 'x) collab \<Rightarrow> NaiveHybridSpaceRecommender \<Rightarrow> ('v, 'c) SearchSpace \<Rightarrow>
   'v DataFrame \<Rightarrow> int \<Rightarrow> ('v, 'x) world \<Rightarrow> (exn + int list) \<times> ('v, 'x) world" where
  "search_discrete E self searchspace candidates_comp batch_size w =
     call_on (disc_recommender self)
       (\<lambda>d. recommend_discrete E d (discrete searchspace) candidates_comp batch_size)
       (emit (Call_recommend_discrete (disc_recommender self)
                (acquisition_function (heap w ! disc_recommender self)) batch_size) w)"

text \<open>Lines 156 and 157: one of the selected rows, in computational representation.\<close>

definition sample_disc_part ::
  "('v, 'c, 'x) collab \<Rightarrow> ('v, 'c) SearchSpace \<Rightarrow> int list \<Rightarrow> ('v, 'x) world \<Rightarrow>
   (exn + 'v tensor3) \<times> ('v, 'x) world" where
  "sample_disc_part E searchspace disc_rec_idx w =
     and_then (loc (comp_rep (discrete searchspace)) disc_rec_idx, w)
       (\<lambda>selected w1.
          case random_state E (ext w1) of
            (k, x') \<Rightarrow>
              and_then (sample_one selected k, (emit (Call_sample 1) w1)\<lparr>ext := x'\<rparr>)
                (\<lambda>disc_part w2. (Inr (unsqueeze (to_tensor E disc_part)), w2)))"

text \<open>
  Lines 159 to 168: the continuous recommender's acquisition function is set up and
  then replaced by the partial one that pins \<open>disc_part\<close>.
\<close>

definition wrap_continuous ::
  "('v, 'c, 'x) collab \<Rightarrow> NaiveHybridSpaceRecommender \<Rightarrow> ('v, 'c) SearchSpace \<Rightarrow>
   'v DataFrame option \<Rightarrow> 'v DataFrame option \<Rightarrow> 'v tensor3 \<Rightarrow> ('v, 'x) world \<Rightarrow>
   (exn + unit) \<times> ('v, 'x) world" where
  "wrap_continuous E self searchspace train_x train_y disc_part w =
     and_then
       (call_on (cont_recommender self)
          (\<lambda>c. setup_acquisition_function E c searchspace train_x train_y)
          (emit (Call_setup_acquisition_function (cont_recommender self)) w))
       (\<lambda>_ w1.
          let c = heap w1 ! cont_recommender self;
              cont_acqf_part =
                PartialAcquisitionFunction (acquisition_function c) disc_part True
          in (Inr (),
              w1\<lparr>heap := (heap w1)[cont_recommender self :=
                     c\<lparr>acquisition_function := Some cont_acqf_part\<rparr>]\<rparr>))"

text \<open>Lines 170 to 173: the continuous search.\<close>

definition search_continuous ::
  "('v, 'c, 'x) collab \<Rightarrow> NaiveHybridSpaceRecommender \<Rightarrow> ('v, 'c) SearchSpace \<Rightarrow>
   int \<Rightarrow> ('v, 'x) world \<Rightarrow> (exn + 'v DataFrame) \<times> ('v, 'x) world" where
  "search_continuous E self searchspace batch_size w =
     call_on (cont_recommender self)
       (\<lambda>c. recommend_continuous E c (continuous searchspace) batch_size)
       (emit (Call_recommend_continuous (cont_recommender self)
                (acquisition_function (heap w ! cont_recommender self)) batch_size) w)"

text \<open>Lines 175 to 179: the two halves glued together.\<close>

definition glue ::
  "('v, 'c) SearchSpace \<Rightarrow> int list \<Rightarrow> 'v DataFrame \<Rightarrow> exn + 'v DataFrame" where
  "glue searchspace disc_rec_idx rec_cont =
     (case loc (exp_rep (discrete searchspace)) disc_rec_idx of
        Inl e \<Rightarrow> Inl e
      | Inr rec_disc_exp \<Rightarrow>
          (case set_index rec_cont (df_index rec_disc_exp) of
             Inl e \<Rightarrow> Inl e
           | Inr rec_cont' \<Rightarrow> Inr (concat_axis1 rec_disc_exp rec_cont')))"

text \<open>Lines 113 to 179: the hybrid setting.\<close>

definition recommend_hybrid ::
  "('v, 'c, 'x) collab \<Rightarrow> NaiveHybridSpaceRecommender \<Rightarrow> bool \<Rightarrow> ('v, 'c) SearchSpace \<Rightarrow>
   int \<Rightarrow> 'v DataFrame option \<Rightarrow> 'v DataFrame option \<Rightarrow> ('v, 'x) world \<Rightarrow>
   (exn + 'v DataFrame) \<times> ('v, 'x) world" where
  "recommend_hybrid E self is_bayesian_recommender searchspace batch_size train_x train_y w =
     and_then
       (case samples_random E (continuous searchspace) 1 (ext w) of
          (res, x') \<Rightarrow> (res, (emit (Call_samples_random 1) w)\<lparr>ext := x'\<rparr>))
       (\<lambda>cont_sample w1.
     let cont_part = unsqueeze (to_tensor E cont_sample) in
     and_then
       (get_candidates E (discrete searchspace) True True,
        emit (Call_get_candidates True True) w1)
       (\<lambda>candidates w2.
     let candidates_comp = snd candidates in
     and_then
       (wrap_discrete E self is_bayesian_recommender searchspace train_x train_y cont_part w2)
       (\<lambda>_ w3.
     and_then (search_discrete E self searchspace candidates_comp batch_size w3)
       (\<lambda>disc_rec_idx w4.
     and_then (sample_disc_part E searchspace disc_rec_idx w4)
       (\<lambda>disc_part w5.
     and_then (wrap_continuous E self searchspace train_x train_y disc_part w5)
       (\<lambda>_ w6.
     and_then (search_continuous E self searchspace batch_size w6)
       (\<lambda>rec_cont w7. (glue searchspace disc_rec_idx rec_cont, w7))))))))"

text \<open>Lines 79 to 179.\<close>

definition recommend ::
  "('v, 'c, 'x) collab \<Rightarrow> NaiveHybridSpaceRecommender \<Rightarrow> ('v, 'c) SearchSpace \<Rightarrow>
   int \<Rightarrow> 'v DataFrame option \<Rightarrow> 'v DataFrame option \<Rightarrow> ('v, 'x) world \<Rightarrow>
   (exn + 'v DataFrame) \<times> ('v, 'x) world" where
  "recommend E self searchspace batch_size train_x train_y w =
     (let is_bayesian_recommender = is_BayesianRecommender (heap w ! disc_recommender self);
          is_np_recommender = is_NonPredictiveRecommender (heap w ! disc_recommender self)
      in if \<not> is_bayesian_recommender \<and> \<not> is_np_recommender
         then (Inl NotImplementedError, w)
         else
           (case degenerate_recommender self searchspace of
              Some r \<Rightarrow>
                call_on r
                  (\<lambda>d. sub_recommend E d searchspace batch_size train_x train_y)
                  (emit (Call_recommend r batch_size) w)
            | None \<Rightarrow>
                recommend_hybrid E self is_bayesian_recommender searchspace batch_size
                  train_x train_y w))"

subsection \<open>What \<open>recommend\<close> calls\<close>


subsection \<open>A worked example\<close>

text \<open>
  One discrete parameter with the levels A, B and C (one-hot encoded in the
  computational representation) and one continuous parameter. The collaborators of
  the example are deterministic: the outside state is a counter that every random
  draw and every search increments, the discrete search selects the last rows of the
  candidates and raises \<open>NotEnoughPointsLeftError\<close> when there are too few, and
  searches leave the recommender they are called on as it is. Warnings are reported,
  not raised, and the constructor of a recommender returns an instance without an
  acquisition function. The store holds two Bayesian recommenders, a non-predictive
  one and one that is neither.
\<close>

datatype cell = Txt string | Num int

definition demo_exp :: "cell DataFrame" where
  "demo_exp = \<lparr>df_columns = [''Categorical_1''], df_index = [0, 1, 2],
               df_rows = [[Some (Txt ''A'')], [Some (Txt ''B'')], [Some (Txt ''C'')]]\<rparr>"

definition demo_comp :: "cell DataFrame" where
  "demo_comp = \<lparr>df_columns = [''Categorical_1_A'', ''Categorical_1_B'', ''Categorical_1_C''],
                df_index = [0, 1, 2],
                df_rows = [[Some (Num 1), Some (Num 0), Some (Num 0)],
                           [Some (Num 0), Some (Num 1), Some (Num 0)],
                           [Some (Num 0), Some (Num 0), Some (Num 1)]]\<rparr>"

definition demo_space :: "SearchSpaceType \<Rightarrow> (cell, string list) SearchSpace" where
  "demo_space t = \<lparr>space_type = t,
                   discrete = \<lparr>exp_rep = demo_exp, comp_rep = demo_comp\<rparr>,
                   continuous = [''Conti_finite1'']\<rparr>"

definition demo_frame :: "string list \<Rightarrow> nat \<Rightarrow> nat \<Rightarrow> cell DataFrame" where
  "demo_frame cols n x =
     \<lparr>df_columns = cols, df_index = map int [0..<n],
      df_rows = replicate n (map (\<lambda>_. Some (Num (int x))) cols)\<rparr>"

definition demo_collab :: "(cell, string list, nat) collab" where
  "demo_collab =
     \<lparr>sub_recommend = (\<lambda>d sp b tx ty x. (Inr (demo_frame [''Param''] (nat b) x), d, Suc x)),
      samples_random = (\<lambda>c n x. (Inr (demo_frame c n x), Suc x)),
      to_tensor = df_rows,
      get_candidates = (\<lambda>sd ar am. Inr (exp_rep sd, comp_rep sd)),
      setup_acquisition_function =
        (\<lambda>d sp tx ty x. (Inr (), d\<lparr>acquisition_function := Some (Acqf x)\<rparr>, Suc x)),
      recommend_discrete =
        (\<lambda>d sd cand b x.
           (if int (length (df_index cand)) < b then Inl NotEnoughPointsLeftError
            else Inr (take (nat b) (rev (df_index cand))), d, x)),
      recommend_continuous = (\<lambda>c cs b x. (Inr (demo_frame cs (nat b) x), c, Suc x)),
      random_state = (\<lambda>x. (x, Suc x)),
      warnings_filter = (\<lambda>msg x. False),
      class_init = (\<lambda>attributes x. (Inr None, [], x))\<rparr>"

text \<open>The same collaborators in an interpreter started with \<open>-W error\<close>.\<close>

definition demo_collab_strict :: "(cell, string list, nat) collab" where
  "demo_collab_strict = demo_collab\<lparr>warnings_filter := (\<lambda>msg x. True)\<rparr>"

definition demo_recommender :: "bool \<Rightarrow> bool \<Rightarrow> cell Recommender" where
  "demo_recommender bayesian nonpredictive =
     \<lparr>allow_repeated_recommendations = False,
      allow_recommending_already_measured = True,
      is_BayesianRecommender = bayesian,
      is_NonPredictiveRecommender = nonpredictive,
      acquisition_function = None\<rparr>"

definition demo_world :: "(cell, nat) world" where
  "demo_world =
     \<lparr>heap = [demo_recommender True False, demo_recommender True False,
              demo_recommender False True, demo_recommender False False],
      ext = 0, trace = []\<rparr>"

text \<open>An orchestrator with the discrete recommender \<open>d\<close> and the given flags.\<close>

definition demo_self :: "ref \<Rightarrow> bool \<Rightarrow> bool \<Rightarrow> NaiveHybridSpaceRecommender" where
  "demo_self d repeated measured =
     \<lparr>allow_repeated_recommendations = repeated,
      allow_recommending_already_measured = measured,
      disc_recommender = d, cont_recommender = 1\<rparr>"

section \<open>Properties\<close>

subsection \<open>Auxiliary facts\<close>

lemmas demo_defs = demo_exp_def demo_comp_def demo_space_def demo_frame_def demo_collab_def
  demo_collab_strict_def
  demo_recommender_def demo_world_def demo_self_def




lemma and_then_Inl [simp]: "and_then (Inl e, w) f = (Inl e, w)"
  by (simp add: and_then_def)

lemma and_then_Inr [simp]: "and_then (Inr a, w) f = f a w"
  by (simp add: and_then_def)

lemma emit_simps [simp]:
  "heap (emit e w) = heap w" "ext (emit e w) = ext w" "trace (emit e w) = trace w @ [e]"
  by (simp_all add: emit_def)

subsection \<open>The capability check\<close>

text \<open>
  C4. When the discrete recommender is neither Bayesian nor non-predictive,
  \<open>recommend\<close> on a discrete or a hybrid space raises \<open>NotImplementedError\<close> and leaves
  the world exactly as it found it: nothing has been called (the trace has no new
  event, so neither the sampler nor the candidate retrieval ran), the outside state
  with its random generators is untouched, and no object has changed.
\<close>

theorem capability_check_fails_fast:
  assumes "\<not> is_BayesianRecommender (heap w ! disc_recommender self)"
      and "\<not> is_NonPredictiveRecommender (heap w ! disc_recommender self)"
      and "space_type searchspace = DISCRETE \<or> space_type searchspace = HYBRID"
  shows "recommend E self searchspace batch_size train_x train_y w =
           (Inl NotImplementedError, w)"
  using assms by (simp add: recommend_def)

theorem capability_check_fails_fast_witness:
  "recommend demo_collab (demo_self 3 False True) (demo_space HYBRID) 2 None None demo_world =
     (Inl NotImplementedError, demo_world)
   \<and> \<not> is_BayesianRecommender (heap demo_world ! disc_recommender (demo_self 3 False True))
   \<and> \<not> is_NonPredictiveRecommender (heap demo_world ! disc_recommender (demo_self 3 False True))
   \<and> space_type (demo_space HYBRID) = HYBRID"
proof -
  have a: "\<not> is_BayesianRecommender (heap demo_world ! disc_recommender (demo_self 3 False True))"
    by (simp add: demo_defs eval_nat_numeral)
  have b: "\<not> is_NonPredictiveRecommender
               (heap demo_world ! disc_recommender (demo_self 3 False True))"
    by (simp add: demo_defs eval_nat_numeral)
  have c: "space_type (demo_space HYBRID) = DISCRETE \<or> space_type (demo_space HYBRID) = HYBRID"
    by (simp add: demo_defs)
  have d: "space_type (demo_space HYBRID) = HYBRID"
    by (simp add: demo_defs)
  from capability_check_fails_fast [OF a b c, of demo_collab 2 None None] a b d
  show ?thesis by simp
qed

text \<open>
  C9. The check is the first thing \<open>recommend\<close> does, whatever the kind of the space
  (discrete, continuous, hybrid or any other value of the type): when the discrete
  recommender is neither Bayesian nor non-predictive, \<open>recommend\<close> raises
  \<open>NotImplementedError\<close> and leaves the world as it found it. On a purely continuous
  space this means that the continuous recommender is not called, although the
  discrete one would never have been used there.
\<close>

theorem capability_check_comes_first:
  assumes "\<not> is_BayesianRecommender (heap w ! disc_recommender self)"
      and "\<not> is_NonPredictiveRecommender (heap w ! disc_recommender self)"
  shows "recommend E self searchspace batch_size train_x train_y w =
           (Inl NotImplementedError, w)"
  using assms by (simp add: recommend_def)

theorem capability_check_comes_first_witness:
  "recommend demo_collab (demo_self 3 False True) (demo_space CONTINUOUS) 3 None None
     demo_world = (Inl NotImplementedError, demo_world)
   \<and> \<not> is_BayesianRecommender (heap demo_world ! disc_recommender (demo_self 3 False True))
   \<and> \<not> is_NonPredictiveRecommender (heap demo_world ! disc_recommender (demo_self 3 False True))
   \<and> space_type (demo_space CONTINUOUS) = CONTINUOUS"
proof -
  have a: "\<not> is_BayesianRecommender (heap demo_world ! disc_recommender (demo_self 3 False True))"
    by (simp add: demo_defs eval_nat_numeral)
  have b: "\<not> is_NonPredictiveRecommender
               (heap demo_world ! disc_recommender (demo_self 3 False True))"
    by (simp add: demo_defs eval_nat_numeral)
  have c: "space_type (demo_space CONTINUOUS) = CONTINUOUS"
    by (simp add: demo_defs)
  from capability_check_comes_first
         [OF a b, of demo_collab "demo_space CONTINUOUS" 3 None None] a b c
  show ?thesis by simp
qed

subsection \<open>Construction\<close>

lemma and_then_returns:
  assumes "and_then m f = (Inr b, w')"
  obtains a w1 where "m = (Inr a, w1)" "f a w1 = (Inr b, w')"
proof (cases m)
  case (Pair res w1)
  with assms show ?thesis
    by (cases res) (auto intro: that)
qed

text \<open>The outcomes of the first half of the guard (lines 51 to 63).\<close>

lemma sync_already_measured_same:
  "allow_recommending_already_measured self =
     allow_recommending_already_measured (heap w ! disc_recommender self) \<Longrightarrow>
   sync_already_measured E self w = (Inr self, w)"
  by (simp add: sync_already_measured_def)

lemma sync_already_measured_warning_raised:
  "allow_recommending_already_measured self \<noteq>
     allow_recommending_already_measured (heap w ! disc_recommender self) \<Longrightarrow>
   warnings_filter E msg_already_measured (ext w) \<Longrightarrow>
   sync_already_measured E self w =
     (Inl (UserWarning msg_already_measured), emit (Warning msg_already_measured) w)"
  by (simp add: sync_already_measured_def warn_def)

lemma sync_already_measured_init_raised:
  "allow_recommending_already_measured self \<noteq>
     allow_recommending_already_measured (heap w ! disc_recommender self) \<Longrightarrow>
   \<not> warnings_filter E msg_already_measured (ext w) \<Longrightarrow>
   class_init E ((heap w ! disc_recommender self)
       \<lparr>allow_recommending_already_measured := allow_recommending_already_measured self\<rparr>)
     (ext w) = (Inl e, ws, x') \<Longrightarrow>
   sync_already_measured E self w =
     (Inl e, w\<lparr>ext := x',
               trace := trace w @ Warning msg_already_measured # map Warning ws\<rparr>)"
  by (simp add: sync_already_measured_def warn_def evolve_def emit_def)

lemma sync_already_measured_copied:
  "allow_recommending_already_measured self \<noteq>
     allow_recommending_already_measured (heap w ! disc_recommender self) \<Longrightarrow>
   \<not> warnings_filter E msg_already_measured (ext w) \<Longrightarrow>
   class_init E ((heap w ! disc_recommender self)
       \<lparr>allow_recommending_already_measured := allow_recommending_already_measured self\<rparr>)
     (ext w) = (Inr a, ws, x') \<Longrightarrow>
   sync_already_measured E self w =
     (Inr (self\<lparr>disc_recommender := length (heap w)\<rparr>),
      w\<lparr>ext := x',
        trace := trace w @ Warning msg_already_measured # map Warning ws,
        heap := heap w @
          [(heap w ! disc_recommender self)
             \<lparr>allow_recommending_already_measured := allow_recommending_already_measured self,
              acquisition_function := a\<rparr>]\<rparr>)"
  by (simp add: sync_already_measured_def warn_def evolve_def emit_def)

lemma sync_already_measured_frame:
  "\<exists>objs. heap (snd (sync_already_measured E self w)) = heap w @ objs"
proof (cases "allow_recommending_already_measured self =
                allow_recommending_already_measured (heap w ! disc_recommender self)")
  case True
  then show ?thesis by (simp add: sync_already_measured_same)
next
  case differ: False
  show ?thesis
  proof (cases "warnings_filter E msg_already_measured (ext w)")
    case True
    with differ show ?thesis by (simp add: sync_already_measured_warning_raised)
  next
    case quiet: False
    obtain res ws x' where c: "class_init E ((heap w ! disc_recommender self)
       \<lparr>allow_recommending_already_measured := allow_recommending_already_measured self\<rparr>)
       (ext w) = (res, ws, x')"
      by (metis prod_cases3)
    show ?thesis
    proof (cases res)
      case (Inl e)
      with differ quiet c show ?thesis
        by (simp add: sync_already_measured_init_raised)
    next
      case (Inr a)
      with differ quiet c show ?thesis
        by (simp add: sync_already_measured_copied)
    qed
  qed
qed

lemma sync_already_measured_returns:
  assumes "sync_already_measured E self w = (Inr self', w')"
  shows "allow_recommending_already_measured self' = allow_recommending_already_measured self
       \<and> allow_repeated_recommendations self' = allow_repeated_recommendations self
       \<and> cont_recommender self' = cont_recommender self
       \<and> allow_recommending_already_measured (heap w' ! disc_recommender self') =
           allow_recommending_already_measured self
       \<and> allow_repeated_recommendations (heap w' ! disc_recommender self') =
           allow_repeated_recommendations (heap w ! disc_recommender self)
       \<and> is_BayesianRecommender (heap w' ! disc_recommender self') =
           is_BayesianRecommender (heap w ! disc_recommender self)
       \<and> is_NonPredictiveRecommender (heap w' ! disc_recommender self') =
           is_NonPredictiveRecommender (heap w ! disc_recommender self)
       \<and> (if allow_recommending_already_measured self =
               allow_recommending_already_measured (heap w ! disc_recommender self)
           then self' = self \<and> w' = w
           else disc_recommender self' = length (heap w)
              \<and> length (heap w') = Suc (length (heap w)))
       \<and> (\<exists>ws. trace w' = trace w @
             (if allow_recommending_already_measured self =
                 allow_recommending_already_measured (heap w ! disc_recommender self)
              then [] else Warning msg_already_measured # map Warning ws))"
proof (cases "allow_recommending_already_measured self =
                allow_recommending_already_measured (heap w ! disc_recommender self)")
  case same: True
  from assms [symmetric] same have "self' = self" "w' = w"
    by (simp_all add: sync_already_measured_same)
  with same show ?thesis by simp
next
  case differ: False
  show ?thesis
  proof (cases "warnings_filter E msg_already_measured (ext w)")
    case True
    with differ assms show ?thesis by (simp add: sync_already_measured_warning_raised)
  next
    case quiet: False
    obtain res ws x' where c: "class_init E ((heap w ! disc_recommender self)
       \<lparr>allow_recommending_already_measured := allow_recommending_already_measured self\<rparr>)
       (ext w) = (res, ws, x')"
      by (metis prod_cases3)
    show ?thesis
    proof (cases res)
      case (Inl e)
      with differ quiet c assms show ?thesis
        by (simp add: sync_already_measured_init_raised)
    next
      case (Inr a)
      with c have c': "class_init E ((heap w ! disc_recommender self)
         \<lparr>allow_recommending_already_measured := allow_recommending_already_measured self\<rparr>)
         (ext w) = (Inr a, ws, x')"
        by simp
      from assms [symmetric] have eq:
        "self' = self\<lparr>disc_recommender := length (heap w)\<rparr>"
        "w' = w\<lparr>ext := x',
                trace := trace w @ Warning msg_already_measured # map Warning ws,
                heap := heap w @
                  [(heap w ! disc_recommender self)
                     \<lparr>allow_recommending_already_measured :=
                        allow_recommending_already_measured self,
                      acquisition_function := a\<rparr>]\<rparr>"
        by (simp_all add: sync_already_measured_copied [OF differ quiet c'])
      from differ show ?thesis unfolding eq by simp blast
    qed
  qed
qed

lemma sync_already_measured_total:
  assumes "\<forall>msg x. \<not> warnings_filter E msg x"
      and "\<forall>attributes x. \<exists>a. fst (class_init E attributes x) = Inr a"
  shows "\<exists>self' w'. sync_already_measured E self w = (Inr self', w')"
proof (cases "allow_recommending_already_measured self =
                allow_recommending_already_measured (heap w ! disc_recommender self)")
  case True
  then show ?thesis by (simp add: sync_already_measured_same)
next
  case differ: False
  from assms(1) have quiet: "\<not> warnings_filter E msg_already_measured (ext w)"
    by simp
  from assms(2) obtain a ws x' where c: "class_init E ((heap w ! disc_recommender self)
       \<lparr>allow_recommending_already_measured := allow_recommending_already_measured self\<rparr>)
       (ext w) = (Inr a, ws, x')"
    by (metis fst_conv prod_cases3)
  show ?thesis
    by (simp add: sync_already_measured_copied [OF differ quiet c])
qed

text \<open>The outcomes of the second half of the guard (lines 65 to 77).\<close>

lemma sync_repeated_same:
  "allow_repeated_recommendations self =
     allow_repeated_recommendations (heap w ! disc_recommender self) \<Longrightarrow>
   sync_repeated E self w = (Inr self, w)"
  by (simp add: sync_repeated_def)

lemma sync_repeated_warning_raised:
  "allow_repeated_recommendations self \<noteq>
     allow_repeated_recommendations (heap w ! disc_recommender self) \<Longrightarrow>
   warnings_filter E msg_repeated (ext w) \<Longrightarrow>
   sync_repeated E self w =
     (Inl (UserWarning msg_repeated), emit (Warning msg_repeated) w)"
  by (simp add: sync_repeated_def warn_def)

lemma sync_repeated_init_raised:
  "allow_repeated_recommendations self \<noteq>
     allow_repeated_recommendations (heap w ! disc_recommender self) \<Longrightarrow>
   \<not> warnings_filter E msg_repeated (ext w) \<Longrightarrow>
   class_init E ((heap w ! disc_recommender self)
       \<lparr>allow_repeated_recommendations := allow_repeated_recommendations self\<rparr>)
     (ext w) = (Inl e, ws, x') \<Longrightarrow>
   sync_repeated E self w =
     (Inl e, w\<lparr>ext := x',
               trace := trace w @ Warning msg_repeated # map Warning ws\<rparr>)"
  by (simp add: sync_repeated_def warn_def evolve_def emit_def)

lemma sync_repeated_copied:
  "allow_repeated_recommendations self \<noteq>
     allow_repeated_recommendations (heap w ! disc_recommender self) \<Longrightarrow>
   \<not> warnings_filter E msg_repeated (ext w) \<Longrightarrow>
   class_init E ((heap w ! disc_recommender self)
       \<lparr>allow_repeated_recommendations := allow_repeated_recommendations self\<rparr>)
     (ext w) = (Inr a, ws, x') \<Longrightarrow>
   sync_repeated E self w =
     (Inr (self\<lparr>disc_recommender := length (heap w)\<rparr>),
      w\<lparr>ext := x',
        trace := trace w @ Warning msg_repeated # map Warning ws,
        heap := heap w @
          [(heap w ! disc_recommender self)
             \<lparr>allow_repeated_recommendations := allow_repeated_recommendations self,
              acquisition_function := a\<rparr>]\<rparr>)"
  by (simp add: sync_repeated_def warn_def evolve_def emit_def)

lemma sync_repeated_frame:
  "\<exists>objs. heap (snd (sync_repeated E self w)) = heap w @ objs"
proof (cases "allow_repeated_recommendations self =
                allow_repeated_recommendations (heap w ! disc_recommender self)")
  case True
  then show ?thesis by (simp add: sync_repeated_same)
next
  case differ: False
  show ?thesis
  proof (cases "warnings_filter E msg_repeated (ext w)")
    case True
    with differ show ?thesis by (simp add: sync_repeated_warning_raised)
  next
    case quiet: False
    obtain res ws x' where c: "class_init E ((heap w ! disc_recommender self)
       \<lparr>allow_repeated_recommendations := allow_repeated_recommendations self\<rparr>)
       (ext w) = (res, ws, x')"
      by (metis prod_cases3)
    show ?thesis
    proof (cases res)
      case (Inl e)
      with differ quiet c show ?thesis
        by (simp add: sync_repeated_init_raised)
    next
      case (Inr a)
      with differ quiet c show ?thesis
        by (simp add: sync_repeated_copied)
    qed
  qed
qed

lemma sync_repeated_returns:
  assumes "sync_repeated E self w = (Inr self', w')"
  shows "allow_repeated_recommendations self' = allow_repeated_recommendations self
       \<and> allow_recommending_already_measured self' = allow_recommending_already_measured self
       \<and> cont_recommender self' = cont_recommender self
       \<and> allow_repeated_recommendations (heap w' ! disc_recommender self') =
           allow_repeated_recommendations self
       \<and> allow_recommending_already_measured (heap w' ! disc_recommender self') =
           allow_recommending_already_measured (heap w ! disc_recommender self)
       \<and> is_BayesianRecommender (heap w' ! disc_recommender self') =
           is_BayesianRecommender (heap w ! disc_recommender self)
       \<and> is_NonPredictiveRecommender (heap w' ! disc_recommender self') =
           is_NonPredictiveRecommender (heap w ! disc_recommender self)
       \<and> (if allow_repeated_recommendations self =
               allow_repeated_recommendations (heap w ! disc_recommender self)
           then self' = self \<and> w' = w
           else disc_recommender self' = length (heap w)
              \<and> length (heap w') = Suc (length (heap w)))
       \<and> (\<exists>ws. trace w' = trace w @
             (if allow_repeated_recommendations self =
                 allow_repeated_recommendations (heap w ! disc_recommender self)
              then [] else Warning msg_repeated # map Warning ws))"
proof (cases "allow_repeated_recommendations self =
                allow_repeated_recommendations (heap w ! disc_recommender self)")
  case same: True
  from assms [symmetric] same have "self' = self" "w' = w"
    by (simp_all add: sync_repeated_same)
  with same show ?thesis by simp
next
  case differ: False
  show ?thesis
  proof (cases "warnings_filter E msg_repeated (ext w)")
    case True
    with differ assms show ?thesis by (simp add: sync_repeated_warning_raised)
  next
    case quiet: False
    obtain res ws x' where c: "class_init E ((heap w ! disc_recommender self)
       \<lparr>allow_repeated_recommendations := allow_repeated_recommendations self\<rparr>)
       (ext w) = (res, ws, x')"
      by (metis prod_cases3)
    show ?thesis
    proof (cases res)
      case (Inl e)
      with differ quiet c assms show ?thesis
        by (simp add: sync_repeated_init_raised)
    next
      case (Inr a)
      with c have c': "class_init E ((heap w ! disc_recommender self)
         \<lparr>allow_repeated_recommendations := allow_repeated_recommendations self\<rparr>)
         (ext w) = (Inr a, ws, x')"
        by simp
      from assms [symmetric] have eq:
        "self' = self\<lparr>disc_recommender := length (heap w)\<rparr>"
        "w' = w\<lparr>ext := x',
                trace := trace w @ Warning msg_repeated # map Warning ws,
                heap := heap w @
                  [(heap w ! disc_recommender self)
                     \<lparr>allow_repeated_recommendations :=
                        allow_repeated_recommendations self,
                      acquisition_function := a\<rparr>]\<rparr>"
        by (simp_all add: sync_repeated_copied [OF differ quiet c'])
      from differ show ?thesis unfolding eq by simp blast
    qed
  qed
qed

lemma sync_repeated_total:
  assumes "\<forall>msg x. \<not> warnings_filter E msg x"
      and "\<forall>attributes x. \<exists>a. fst (class_init E attributes x) = Inr a"
  shows "\<exists>self' w'. sync_repeated E self w = (Inr self', w')"
proof (cases "allow_repeated_recommendations self =
                allow_repeated_recommendations (heap w ! disc_recommender self)")
  case True
  then show ?thesis by (simp add: sync_repeated_same)
next
  case differ: False
  from assms(1) have quiet: "\<not> warnings_filter E msg_repeated (ext w)"
    by simp
  from assms(2) obtain a ws x' where c: "class_init E ((heap w ! disc_recommender self)
       \<lparr>allow_repeated_recommendations := allow_repeated_recommendations self\<rparr>)
       (ext w) = (Inr a, ws, x')"
    by (metis fst_conv prod_cases3)
  show ?thesis
    by (simp add: sync_repeated_copied [OF differ quiet c])
qed




lemma post_init_frame:
  "\<exists>objs. heap (snd (attrs_post_init E self w)) = heap w @ objs"
proof (cases "sync_already_measured E self w")
  case (Pair res w1)
  from sync_already_measured_frame [of E self w] Pair
  obtain objs1 where h1: "heap w1 = heap w @ objs1"
    by auto
  show ?thesis
  proof (cases res)
    case (Inl e)
    with Pair h1 show ?thesis
      by (simp add: attrs_post_init_def)
  next
    case (Inr self1)
    from sync_repeated_frame [of E self1 w1]
    obtain objs2 where "heap (snd (sync_repeated E self1 w1)) = heap w1 @ objs2"
      by auto
    with Pair Inr h1 show ?thesis
      by (simp add: attrs_post_init_def)
  qed
qed

lemma post_init_returns:
  assumes "attrs_post_init E self w = (Inr self', w')"
  obtains self1 w1 where
    "sync_already_measured E self w = (Inr self1, w1)"
    "sync_repeated E self1 w1 = (Inr self', w')"
  using assms unfolding attrs_post_init_def
  by (rule and_then_returns)

lemma post_init_total:
  assumes "\<forall>msg x. \<not> warnings_filter E msg x"
      and "\<forall>attributes x. \<exists>a. fst (class_init E attributes x) = Inr a"
  shows "\<exists>self' w'. attrs_post_init E self w = (Inr self', w')"
proof -
  from sync_already_measured_total [OF assms, of self w]
  obtain self1 w1 where s1: "sync_already_measured E self w = (Inr self1, w1)"
    by blast
  from sync_repeated_total [OF assms, of self1 w1]
  obtain self' w' where s2: "sync_repeated E self1 w1 = (Inr self', w')"
    by blast
  from s1 s2 show ?thesis
    by (simp add: attrs_post_init_def)
qed

text \<open>What the guard establishes when it returns.\<close>

lemma post_init_establishes:
  assumes "attrs_post_init E self w = (Inr self', w')"
  shows "allow_recommending_already_measured self' = allow_recommending_already_measured self"
    and "allow_repeated_recommendations self' = allow_repeated_recommendations self"
    and "cont_recommender self' = cont_recommender self"
    and "allow_recommending_already_measured (heap w' ! disc_recommender self') =
           allow_recommending_already_measured self"
    and "allow_repeated_recommendations (heap w' ! disc_recommender self') =
           allow_repeated_recommendations self"
    and "is_BayesianRecommender (heap w' ! disc_recommender self') =
           is_BayesianRecommender (heap w ! disc_recommender self)"
    and "is_NonPredictiveRecommender (heap w' ! disc_recommender self') =
           is_NonPredictiveRecommender (heap w ! disc_recommender self)"
    and "\<exists>ws1 ws2. trace w' = trace w
           @ (if allow_recommending_already_measured self \<noteq>
                 allow_recommending_already_measured (heap w ! disc_recommender self)
              then Warning msg_already_measured # map Warning ws1 else [])
           @ (if allow_repeated_recommendations self \<noteq>
                 allow_repeated_recommendations (heap w ! disc_recommender self)
              then Warning msg_repeated # map Warning ws2 else [])"
    and "if allow_recommending_already_measured self =
             allow_recommending_already_measured (heap w ! disc_recommender self)
          \<and> allow_repeated_recommendations self =
             allow_repeated_recommendations (heap w ! disc_recommender self)
         then self' = self \<and> w' = w
         else length (heap w) \<le> disc_recommender self'
            \<and> disc_recommender self' < length (heap w')"
proof -
  from assms obtain self1 w1 where
    s1: "sync_already_measured E self w = (Inr self1, w1)" and
    s2: "sync_repeated E self1 w1 = (Inr self', w')"
    by (rule post_init_returns)
  note a = sync_already_measured_returns [OF s1]
  note b = sync_repeated_returns [OF s2]
  from a b show "allow_recommending_already_measured self' =
                   allow_recommending_already_measured self"
    by simp
  from a b show "allow_repeated_recommendations self' = allow_repeated_recommendations self"
    by simp
  from a b show "cont_recommender self' = cont_recommender self"
    by simp
  from a b show "allow_recommending_already_measured (heap w' ! disc_recommender self') =
                   allow_recommending_already_measured self"
    by simp
  from a b show "allow_repeated_recommendations (heap w' ! disc_recommender self') =
                   allow_repeated_recommendations self"
    by simp
  from a b show "is_BayesianRecommender (heap w' ! disc_recommender self') =
                   is_BayesianRecommender (heap w ! disc_recommender self)"
    by simp
  from a b show "is_NonPredictiveRecommender (heap w' ! disc_recommender self') =
                   is_NonPredictiveRecommender (heap w ! disc_recommender self)"
    by simp
  from a obtain ws1 where t1: "trace w1 = trace w @
             (if allow_recommending_already_measured self =
                 allow_recommending_already_measured (heap w ! disc_recommender self)
              then [] else Warning msg_already_measured # map Warning ws1)"
    by blast
  from b obtain ws2 where t2: "trace w' = trace w1 @
             (if allow_repeated_recommendations self1 =
                 allow_repeated_recommendations (heap w1 ! disc_recommender self1)
              then [] else Warning msg_repeated # map Warning ws2)"
    by blast
  from a have r: "allow_repeated_recommendations self1 = allow_repeated_recommendations self"
    "allow_repeated_recommendations (heap w1 ! disc_recommender self1) =
       allow_repeated_recommendations (heap w ! disc_recommender self)"
    by simp_all
  have "trace w' = trace w
           @ (if allow_recommending_already_measured self \<noteq>
                 allow_recommending_already_measured (heap w ! disc_recommender self)
              then Warning msg_already_measured # map Warning ws1 else [])
           @ (if allow_repeated_recommendations self \<noteq>
                 allow_repeated_recommendations (heap w ! disc_recommender self)
              then Warning msg_repeated # map Warning ws2 else [])"
    unfolding t2 t1 r by simp
  then show "\<exists>ws1 ws2. trace w' = trace w
           @ (if allow_recommending_already_measured self \<noteq>
                 allow_recommending_already_measured (heap w ! disc_recommender self)
              then Warning msg_already_measured # map Warning ws1 else [])
           @ (if allow_repeated_recommendations self \<noteq>
                 allow_repeated_recommendations (heap w ! disc_recommender self)
              then Warning msg_repeated # map Warning ws2 else [])"
    by blast
  from a have h1: "length (heap w) \<le> length (heap w1)"
    by (simp split: if_splits)
  from a b r h1 show "if allow_recommending_already_measured self =
             allow_recommending_already_measured (heap w ! disc_recommender self)
          \<and> allow_repeated_recommendations self =
             allow_repeated_recommendations (heap w ! disc_recommender self)
         then self' = self \<and> w' = w
         else length (heap w) \<le> disc_recommender self'
            \<and> disc_recommender self' < length (heap w')"
    by (simp split: if_splits)
qed


subsection \<open>The calls of \<open>recommend\<close>\<close>





lemma call_on_trace [simp]: "trace (snd (call_on r m w)) = trace w"
  by (simp add: call_on_def split: prod.splits)

lemma call_on_heap_length [simp]: "length (heap (snd (call_on r m w))) = length (heap w)"
  by (simp add: call_on_def split: prod.splits)












subsection \<open>The flag synchronization guard\<close>





text \<open>
  C10. Whether the guard returns or raises, it changes no object that existed before:
  every reference the caller holds, the one of the recommender it passed in among
  them, names the same unchanged object afterwards. When the guard returns and a
  flag differed, the orchestrator's field \<open>disc_recommender\<close> is rebound to a new
  object (a reference that did not exist before), which is a modified copy of the
  one supplied: of the same class, with both flags as the orchestrator has them. When
  no flag differed, the field and the store stay as they were.
\<close>

theorem construction_leaves_objects_alone:
  assumes valid: "disc_recommender self < length (heap w)"
      and init: "attrs_post_init E self w = (res, w')"
  shows "(\<forall>r < length (heap w). heap w' ! r = heap w ! r)
       \<and> (\<forall>self'. res = Inr self' \<longrightarrow>
           (if allow_recommending_already_measured self =
                 allow_recommending_already_measured (heap w ! disc_recommender self)
              \<and> allow_repeated_recommendations self =
                 allow_repeated_recommendations (heap w ! disc_recommender self)
            then disc_recommender self' = disc_recommender self \<and> heap w' = heap w
            else length (heap w) \<le> disc_recommender self'
               \<and> disc_recommender self' < length (heap w')
               \<and> disc_recommender self' \<noteq> disc_recommender self
               \<and> is_BayesianRecommender (heap w' ! disc_recommender self') =
                   is_BayesianRecommender (heap w ! disc_recommender self)
               \<and> is_NonPredictiveRecommender (heap w' ! disc_recommender self') =
                   is_NonPredictiveRecommender (heap w ! disc_recommender self)
               \<and> allow_recommending_already_measured (heap w' ! disc_recommender self') =
                   allow_recommending_already_measured self
               \<and> allow_repeated_recommendations (heap w' ! disc_recommender self') =
                   allow_repeated_recommendations self))"
proof (intro conjI allI impI)
  fix r assume "r < length (heap w)"
  moreover from post_init_frame [of E self w] init
  obtain objs where "heap w' = heap w @ objs"
    by auto
  ultimately show "heap w' ! r = heap w ! r"
    by (simp add: nth_append)
next
  fix self' assume "res = Inr self'"
  with init have r: "attrs_post_init E self w = (Inr self', w')"
    by simp
  note est = post_init_establishes [OF r]
  show "if allow_recommending_already_measured self =
                 allow_recommending_already_measured (heap w ! disc_recommender self)
              \<and> allow_repeated_recommendations self =
                 allow_repeated_recommendations (heap w ! disc_recommender self)
            then disc_recommender self' = disc_recommender self \<and> heap w' = heap w
            else length (heap w) \<le> disc_recommender self'
               \<and> disc_recommender self' < length (heap w')
               \<and> disc_recommender self' \<noteq> disc_recommender self
               \<and> is_BayesianRecommender (heap w' ! disc_recommender self') =
                   is_BayesianRecommender (heap w ! disc_recommender self)
               \<and> is_NonPredictiveRecommender (heap w' ! disc_recommender self') =
                   is_NonPredictiveRecommender (heap w ! disc_recommender self)
               \<and> allow_recommending_already_measured (heap w' ! disc_recommender self') =
                   allow_recommending_already_measured self
               \<and> allow_repeated_recommendations (heap w' ! disc_recommender self') =
                   allow_repeated_recommendations self"
    using est(4-7) est(9) valid
    by (simp split: if_splits)
qed

theorem construction_leaves_objects_alone_witness:
  "disc_recommender (demo_self 0 True True) < length (heap demo_world)
   \<and> (\<exists>self' w'. attrs_post_init demo_collab (demo_self 0 True True) demo_world =
                   (Inr self', w')
        \<and> heap w' ! 0 = heap demo_world ! 0
        \<and> disc_recommender self' \<noteq> 0
        \<and> is_BayesianRecommender (heap w' ! disc_recommender self') = True
        \<and> allow_repeated_recommendations (heap w' ! disc_recommender self') = True)"
proof -
  have a: "disc_recommender (demo_self 0 True True) < length (heap demo_world)"
    by (simp add: demo_defs)
  have q: "\<forall>msg x. \<not> warnings_filter demo_collab msg x"
    by (simp add: demo_defs)
  have k: "\<forall>attributes x. \<exists>a. fst (class_init demo_collab attributes x) = Inr a"
    by (simp add: demo_defs)
  from post_init_total [OF q k, of "demo_self 0 True True" demo_world]
  obtain self' w' where
    r: "attrs_post_init demo_collab (demo_self 0 True True) demo_world = (Inr self', w')"
    by blast
  have f: "allow_repeated_recommendations (demo_self 0 True True) = True"
          "allow_repeated_recommendations
             (heap demo_world ! disc_recommender (demo_self 0 True True)) = False"
          "is_BayesianRecommender
             (heap demo_world ! disc_recommender (demo_self 0 True True)) = True"
          "disc_recommender (demo_self 0 True True) = 0"
          "length (heap demo_world) = 4"
    by (simp_all add: demo_defs)
  from construction_leaves_objects_alone [OF a r] f
  have "heap w' ! 0 = heap demo_world ! 0
        \<and> disc_recommender self' \<noteq> 0
        \<and> is_BayesianRecommender (heap w' ! disc_recommender self') = True
        \<and> allow_repeated_recommendations (heap w' ! disc_recommender self') = True"
    by simp
  with a r show ?thesis by blast
qed

subsection \<open>Degenerate dispatch\<close>

text \<open>
  A counterexample to C1 as stated. The claim promises the sub-recommender's own
  result for every discrete and every continuous space. The guard at the head of
  \<open>recommend\<close> comes
  before the dispatch, so with a discrete recommender that is neither Bayesian nor
  non-predictive the orchestrator raises \<open>NotImplementedError\<close> where the continuous
  recommender, called directly with the same arguments, returns a batch.
\<close>

theorem degenerate_dispatch_counterexample:
  "fst (recommend demo_collab (demo_self 3 False True) (demo_space CONTINUOUS) 3 None None
          demo_world) = Inl NotImplementedError
   \<and> fst (sub_recommend demo_collab
            (heap demo_world ! cont_recommender (demo_self 3 False True))
            (demo_space CONTINUOUS) 3 None None (ext demo_world)) =
       Inr (demo_frame [''Param''] 3 0)"
  by (simp add: recommend_def demo_defs eval_nat_numeral)

text \<open>
  C1, as amended. When the discrete recommender is Bayesian or non-predictive,
  \<open>recommend\<close> on a
  discrete space is one call of the discrete recommender's \<open>recommend\<close> with the same
  arguments, and on a continuous space one call of the continuous recommender's:
  the result (a batch or an exception) is the callee's, and so is what the call did
  to the callee and to the outside state.
\<close>

theorem degenerate_dispatch:
  assumes "is_BayesianRecommender (heap w ! disc_recommender self) \<or>
           is_NonPredictiveRecommender (heap w ! disc_recommender self)"
  shows "(space_type searchspace = DISCRETE \<longrightarrow>
           recommend E self searchspace batch_size train_x train_y w =
             (case sub_recommend E (heap w ! disc_recommender self) searchspace batch_size
                     train_x train_y (ext w) of
                (res, d', x') \<Rightarrow>
                  (res, w\<lparr>heap := (heap w)[disc_recommender self := d'], ext := x',
                          trace := trace w @ [Call_recommend (disc_recommender self) batch_size]\<rparr>)))
       \<and> (space_type searchspace = CONTINUOUS \<longrightarrow>
           recommend E self searchspace batch_size train_x train_y w =
             (case sub_recommend E (heap w ! cont_recommender self) searchspace batch_size
                     train_x train_y (ext w) of
                (res, c', x') \<Rightarrow>
                  (res, w\<lparr>heap := (heap w)[cont_recommender self := c'], ext := x',
                          trace := trace w @ [Call_recommend (cont_recommender self) batch_size]\<rparr>)))"
  using assms
  by (auto simp: recommend_def degenerate_recommender_def call_on_def emit_def split: prod.splits)

theorem degenerate_dispatch_witness:
  "(is_BayesianRecommender (heap demo_world ! disc_recommender (demo_self 0 False True)) \<or>
    is_NonPredictiveRecommender (heap demo_world ! disc_recommender (demo_self 0 False True)))
   \<and> space_type (demo_space CONTINUOUS) = CONTINUOUS
   \<and> fst (recommend demo_collab (demo_self 0 False True) (demo_space CONTINUOUS) 3 None None
            demo_world) = Inr (demo_frame [''Param''] 3 0)
   \<and> space_type (demo_space DISCRETE) = DISCRETE
   \<and> fst (recommend demo_collab (demo_self 0 False True) (demo_space DISCRETE) 3 None None
            demo_world) = Inr (demo_frame [''Param''] 3 0)"
proof -
  have a: "is_BayesianRecommender (heap demo_world ! disc_recommender (demo_self 0 False True)) \<or>
    is_NonPredictiveRecommender (heap demo_world ! disc_recommender (demo_self 0 False True))"
    by (simp add: demo_defs)
  have c: "space_type (demo_space CONTINUOUS) = CONTINUOUS"
          "space_type (demo_space DISCRETE) = DISCRETE"
    by (simp_all add: demo_defs)
  have s: "sub_recommend demo_collab d (demo_space t) 3 None None (ext demo_world) =
             (Inr (demo_frame [''Param''] 3 0), d, Suc 0)" for d t
    by (simp add: demo_collab_def demo_world_def)
  from degenerate_dispatch [OF a, of "demo_space CONTINUOUS" demo_collab 3 None None]
       degenerate_dispatch [OF a, of "demo_space DISCRETE" demo_collab 3 None None] a c
  show ?thesis by (simp add: s)
qed

subsection \<open>The candidate pool\<close>







subsection \<open>Failures of the discrete search\<close>

lemma and_then_returns_iff:
  "and_then m f = (Inr b, w') \<longleftrightarrow> (\<exists>a w1. m = (Inr a, w1) \<and> f a w1 = (Inr b, w'))"
proof (cases m)
  case (Pair res w1)
  then show ?thesis by (cases res) simp_all
qed

lemma wrap_discrete_trace:
  assumes "wrap_discrete E self bayes searchspace train_x train_y cont_part w = (Inr (), w3)"
  shows "trace w3 = trace w @
           (if bayes then [Call_setup_acquisition_function (disc_recommender self)] else [])"
proof (cases bayes)
  case False
  with assms show ?thesis by (simp add: wrap_discrete_def)
next
  case True
  with assms obtain u w1 where
    c: "call_on (disc_recommender self)
             (\<lambda>d. setup_acquisition_function E d searchspace train_x train_y)
             (emit (Call_setup_acquisition_function (disc_recommender self)) w) = (Inr u, w1)"
    and r: "w3 = w1\<lparr>heap := (heap w1)[disc_recommender self :=
                 (heap w1 ! disc_recommender self)\<lparr>acquisition_function :=
                    Some (PartialAcquisitionFunction
                           (acquisition_function (heap w1 ! disc_recommender self))
                           cont_part False)\<rparr>]\<rparr>"
    by (auto simp: wrap_discrete_def and_then_returns_iff Let_def)
  from c have "trace w1 =
      trace w @ [Call_setup_acquisition_function (disc_recommender self)]"
    using call_on_trace [of "disc_recommender self"
        "\<lambda>d. setup_acquisition_function E d searchspace train_x train_y"
        "emit (Call_setup_acquisition_function (disc_recommender self)) w"]
    by simp
  with r True show ?thesis by simp
qed

text \<open>
  C8. When the discrete search raises, \<open>recommend\<close> raises the same exception. The
  hypotheses say that the run gets as far as the search: the continuous sample is
  drawn, the candidates are retrieved, and the preparation of lines 131 to 145
  returns, leaving the world \<open>w3\<close>; there the search of the discrete recommender,
  called with the candidates and the batch size, raises \<open>e\<close>. Then \<open>recommend\<close> raises
  \<open>e\<close> itself, not another exception, and the calls it has made end with that one
  call of the search: it is not called a second time (no retry, no smaller batch),
  and nothing is called after it.
\<close>

theorem discrete_search_failure_propagates:
  assumes capable: "is_BayesianRecommender (heap w ! disc_recommender self) \<or>
                    is_NonPredictiveRecommender (heap w ! disc_recommender self)"
      and hybrid: "space_type searchspace \<noteq> DISCRETE" "space_type searchspace \<noteq> CONTINUOUS"
      and sampled: "samples_random E (continuous searchspace) 1 (ext w) = (Inr cont_sample, x1)"
      and retrieved: "get_candidates E (discrete searchspace) True True = Inr candidates"
      and prepared:
        "wrap_discrete E self (is_BayesianRecommender (heap w ! disc_recommender self))
           searchspace train_x train_y (unsqueeze (to_tensor E cont_sample))
           (emit (Call_get_candidates True True)
              ((emit (Call_samples_random 1) w)\<lparr>ext := x1\<rparr>)) = (Inr (), w3)"
      and fails:
        "recommend_discrete E (heap w3 ! disc_recommender self) (discrete searchspace)
           (snd candidates) batch_size (ext w3) = (Inl e, d', x')"
  shows "fst (recommend E self searchspace batch_size train_x train_y w) = Inl e
       \<and> trace (snd (recommend E self searchspace batch_size train_x train_y w)) =
           trace w @ [Call_samples_random 1, Call_get_candidates True True]
           @ (if is_BayesianRecommender (heap w ! disc_recommender self)
              then [Call_setup_acquisition_function (disc_recommender self)] else [])
           @ [Call_recommend_discrete (disc_recommender self)
                (acquisition_function (heap w3 ! disc_recommender self)) batch_size]"
proof -
  from capable hybrid have h:
    "recommend E self searchspace batch_size train_x train_y w =
     recommend_hybrid E self (is_BayesianRecommender (heap w ! disc_recommender self))
       searchspace batch_size train_x train_y w"
    by (auto simp: recommend_def degenerate_recommender_def)
  have s: "search_discrete E self searchspace (snd candidates) batch_size w3 =
    (Inl e, w3\<lparr>heap := (heap w3)[disc_recommender self := d'], ext := x',
               trace := trace w3 @ [Call_recommend_discrete (disc_recommender self)
                 (acquisition_function (heap w3 ! disc_recommender self)) batch_size]\<rparr>)"
    using fails by (simp add: search_discrete_def call_on_def emit_def)
  have r: "recommend_hybrid E self (is_BayesianRecommender (heap w ! disc_recommender self))
       searchspace batch_size train_x train_y w =
    (Inl e, w3\<lparr>heap := (heap w3)[disc_recommender self := d'], ext := x',
               trace := trace w3 @ [Call_recommend_discrete (disc_recommender self)
                 (acquisition_function (heap w3 ! disc_recommender self)) batch_size]\<rparr>)"
    by (simp add: recommend_hybrid_def sampled retrieved prepared s del: One_nat_def)
  from wrap_discrete_trace [OF prepared] have
    "trace w3 = trace w @ [Call_samples_random 1, Call_get_candidates True True]
           @ (if is_BayesianRecommender (heap w ! disc_recommender self)
              then [Call_setup_acquisition_function (disc_recommender self)] else [])"
    by simp
  with h r show ?thesis by simp
qed

theorem discrete_search_failure_propagates_witness:
  "space_type (demo_space HYBRID) \<noteq> DISCRETE
   \<and> space_type (demo_space HYBRID) \<noteq> CONTINUOUS
   \<and> get_candidates demo_collab (discrete (demo_space HYBRID)) True True =
       Inr (demo_exp, demo_comp)
   \<and> fst (recommend_discrete demo_collab (demo_recommender True False)
            (discrete (demo_space HYBRID)) demo_comp 4 1) = Inl NotEnoughPointsLeftError
   \<and> fst (recommend demo_collab (demo_self 0 False True) (demo_space HYBRID) 4 None None
            demo_world) = Inl NotEnoughPointsLeftError"
proof -
  let ?w2 = "emit (Call_get_candidates True True)
               ((emit (Call_samples_random 1) demo_world)\<lparr>ext := 1\<rparr>)"
  let ?prep = "wrap_discrete demo_collab (demo_self 0 False True)
           (is_BayesianRecommender (heap demo_world ! disc_recommender (demo_self 0 False True)))
           (demo_space HYBRID) None None
           (unsqueeze (to_tensor demo_collab (demo_frame [''Conti_finite1''] 1 0))) ?w2"
  have a: "is_BayesianRecommender (heap demo_world ! disc_recommender (demo_self 0 False True)) \<or>
    is_NonPredictiveRecommender (heap demo_world ! disc_recommender (demo_self 0 False True))"
    by (simp add: demo_defs)
  have h: "space_type (demo_space HYBRID) \<noteq> DISCRETE"
          "space_type (demo_space HYBRID) \<noteq> CONTINUOUS"
    by (simp_all add: demo_defs)
  have s: "samples_random demo_collab (continuous (demo_space HYBRID)) 1 (ext demo_world) =
             (Inr (demo_frame [''Conti_finite1''] 1 0), 1)"
    by (simp add: demo_collab_def demo_space_def demo_world_def)
  have g: "get_candidates demo_collab (discrete (demo_space HYBRID)) True True =
             Inr (demo_exp, demo_comp)"
    by (simp add: demo_collab_def demo_space_def)
  have "fst ?prep = Inr ()"
    by (simp add: wrap_discrete_def call_on_def demo_collab_def demo_world_def
          demo_self_def demo_recommender_def)
  then have p: "?prep = (Inr (), snd ?prep)"
    by (simp add: prod_eq_iff)
  have f: "recommend_discrete demo_collab d (discrete (demo_space HYBRID))
             (snd (demo_exp, demo_comp)) 4 x = (Inl NotEnoughPointsLeftError, d, x)" for d x
    by (simp add: demo_collab_def demo_comp_def)
  from discrete_search_failure_propagates [OF a h s g p f] h g f [of "demo_recommender True False" 1]
  show ?thesis by simp
qed

subsection \<open>A hybrid run that returns\<close>








subsection \<open>The pins of the hybrid cycle\<close>





subsection \<open>What stays stored after a call\<close>




subsection \<open>The shape of the hybrid batch\<close>











end
